theory Spec2Isabelle
  imports Main
begin

section \<open>Strings and the string functions the validation chains call\<close>

text \<open>
  \<^verbatim>\<open>server.js\<close> declares its field rules with express-validator chains such as
  \<^verbatim>\<open>body('companyName').trim().isLength({ min: 1, max: 25 }).escape().withMessage(...)\<close>.
  The chain methods delegate to the string functions of validator.js. Strings are
  modelled as \<open>string\<close>, one \<open>char\<close> per UTF-16 code unit below 256, so that
  \<open>length\<close> is the JavaScript \<^verbatim>\<open>length\<close> that \<^verbatim>\<open>isLength\<close> compares.

  \<^verbatim>\<open>server.js\<close> takes \<^verbatim>\<open>body\<close>, \<^verbatim>\<open>param\<close> and \<^verbatim>\<open>validationResult\<close> from the root of the
  express-validator package. That is the interface in which a chain runs its sanitizers
  and validators in the order they are written, and this is how the chains are run below.
\<close>

definition is_space :: "char \<Rightarrow> bool" where
  \<comment> \<open>the characters below 256 that the regular expression \<^verbatim>\<open>\s\<close> matches\<close>
  "is_space c \<longleftrightarrow>
     c \<in> {CHR 0x09, CHR 0x0A, CHR 0x0B, CHR 0x0C, CHR 0x0D, CHR 0x20, CHR 0xA0}"

definition validator_trim :: "string \<Rightarrow> string" where
  \<comment> \<open>\<^verbatim>\<open>rtrim(ltrim(str))\<close>: whitespace is removed from both ends\<close>
  "validator_trim s = rev (dropWhile is_space (rev (dropWhile is_space s)))"

fun escape_char :: "char \<Rightarrow> string" where
  "escape_char c =
     (if c = CHR ''&'' then ''&amp;''
      else if c = CHR 0x22 then ''&quot;''
      else if c = CHR 0x27 then ''&#x27;''
      else if c = CHR ''<'' then ''&lt;''
      else if c = CHR ''>'' then ''&gt;''
      else if c = CHR ''/'' then ''&#x2F;''
      else if c = CHR 0x5C then ''&#x5C;''
      else if c = CHR 0x60 then ''&#96;''
      else [c])"

definition validator_escape :: "string \<Rightarrow> string" where
  \<comment> \<open>the eight \<^verbatim>\<open>replace\<close> calls of validator.js: \<^verbatim>\<open>&\<close> is replaced first, so the
      entities written by the later replacements are never escaped again\<close>
  "validator_escape s = concat (map escape_char s)"

definition validator_isLength :: "string \<Rightarrow> nat \<Rightarrow> nat \<Rightarrow> bool" where
  "validator_isLength s mn mx \<longleftrightarrow> mn \<le> length s \<and> length s \<le> mx"

definition toString :: "string option \<Rightarrow> string" where
  \<comment> \<open>express-validator stringifies a value before a standard validator or sanitizer
      sees it; \<^verbatim>\<open>undefined\<close> becomes the empty string\<close>
  "toString v = (case v of None \<Rightarrow> [] | Some s \<Rightarrow> s)"

definition truthy :: "string option \<Rightarrow> bool" where
  \<comment> \<open>JavaScript truthiness of a value that is \<^verbatim>\<open>undefined\<close> or a string\<close>
  "truthy v = (case v of None \<Rightarrow> False | Some s \<Rightarrow> s \<noteq> [])"

fun join :: "string \<Rightarrow> string list \<Rightarrow> string" where
  "join sep [] = []"
| "join sep [x] = x"
| "join sep (x # y # ys) = x @ sep @ join sep (y # ys)"

section \<open>Requests and validation chains\<close>

text \<open>
  A request carries the route parameters and the parsed JSON body. The documented
  schema of every field is \<^verbatim>\<open>type: string\<close>, so a field is a string or absent
  (\<^verbatim>\<open>undefined\<close>, \<open>None\<close>).
\<close>

record request =
  req_params :: "string \<rightharpoonup> string"
  req_body :: "string \<rightharpoonup> string"

datatype location = Body | Params

datatype sanitizer = Trim | Escape

datatype validator = IsLength nat nat

datatype item = Sanitization sanitizer | Validation validator string

record chain =
  c_location :: location
  c_path :: string
  c_optional :: bool
  c_stack :: "item list"

text \<open>One entry of \<^verbatim>\<open>errors.array()\<close>.\<close>

record verror =
  e_value :: "string option"
  e_msg :: string
  e_path :: string
  e_location :: location

text \<open>The chain builders, named as \<^verbatim>\<open>server.js\<close> calls them.\<close>

definition body :: "string \<Rightarrow> chain" where
  "body f = \<lparr>c_location = Body, c_path = f, c_optional = False, c_stack = []\<rparr>"

definition param :: "string \<Rightarrow> chain" where
  "param f = \<lparr>c_location = Params, c_path = f, c_optional = False, c_stack = []\<rparr>"

definition optional :: "chain \<Rightarrow> chain" where
  "optional c = c\<lparr>c_optional := True\<rparr>"

definition trim :: "chain \<Rightarrow> chain" where
  "trim c = c\<lparr>c_stack := c_stack c @ [Sanitization Trim]\<rparr>"

definition escape :: "chain \<Rightarrow> chain" where
  "escape c = c\<lparr>c_stack := c_stack c @ [Sanitization Escape]\<rparr>"

definition isLength :: "nat \<Rightarrow> nat \<Rightarrow> chain \<Rightarrow> chain" where
  "isLength mn mx c = c\<lparr>c_stack := c_stack c @ [Validation (IsLength mn mx) ''Invalid value'']\<rparr>"

fun set_last_message :: "string \<Rightarrow> item list \<Rightarrow> item list \<times> bool" where
  "set_last_message m [] = ([], False)"
| "set_last_message m (i # is) =
     (case set_last_message m is of
        (is', True) \<Rightarrow> (i # is', True)
      | (is', False) \<Rightarrow>
          (case i of
             Validation v _ \<Rightarrow> (Validation v m # is', True)
           | Sanitization s \<Rightarrow> (i # is', False)))"

definition withMessage :: "string \<Rightarrow> chain \<Rightarrow> chain" where
  \<comment> \<open>the message goes to the last validator of the chain, whatever sanitizers follow it\<close>
  "withMessage m c = c\<lparr>c_stack := fst (set_last_message m (c_stack c))\<rparr>"

definition get_field :: "location \<Rightarrow> string \<Rightarrow> request \<Rightarrow> string option" where
  "get_field l f req = (case l of Body \<Rightarrow> req_body req f | Params \<Rightarrow> req_params req f)"

definition set_field :: "location \<Rightarrow> string \<Rightarrow> string option \<Rightarrow> request \<Rightarrow> request" where
  "set_field l f v req =
     (case l of
        Body \<Rightarrow> req\<lparr>req_body := (req_body req)(f := v)\<rparr>
      | Params \<Rightarrow> req\<lparr>req_params := (req_params req)(f := v)\<rparr>)"

fun run_sanitizer :: "sanitizer \<Rightarrow> string \<Rightarrow> string" where
  "run_sanitizer Trim s = validator_trim s"
| "run_sanitizer Escape s = validator_escape s"

fun run_validator :: "validator \<Rightarrow> string \<Rightarrow> bool" where
  "run_validator (IsLength mn mx) s = validator_isLength s mn mx"

fun run_item :: "chain \<Rightarrow> item \<Rightarrow> string option \<times> verror list \<Rightarrow> string option \<times> verror list" where
  "run_item c (Sanitization s) (v, errs) = (Some (run_sanitizer s (toString v)), errs)"
| "run_item c (Validation p m) (v, errs) =
     (if run_validator p (toString v) then (v, errs)
      else (v, errs @ [\<lparr>e_value = v, e_msg = m, e_path = c_path c, e_location = c_location c\<rparr>]))"

definition run_chain :: "chain \<Rightarrow> request \<Rightarrow> request \<times> verror list" where
  \<comment> \<open>every item of the stack runs in the order the chain lists them, a failed validator
      stops nothing; an optional chain is skipped when the field is \<^verbatim>\<open>undefined\<close>; the
      sanitized value is written back to the request\<close>
  "run_chain c req =
     (let v0 = get_field (c_location c) (c_path c) req in
      if c_optional c \<and> v0 = None then (req, [])
      else
        (case fold (run_item c) (c_stack c) (v0, []) of
           (v, errs) \<Rightarrow> (set_field (c_location c) (c_path c) v req, errs)))"

fun run_chains :: "chain list \<Rightarrow> request \<Rightarrow> request \<times> verror list" where
  "run_chains [] req = (req, [])"
| "run_chains (c # cs) req =
     (case run_chain c req of
        (req1, e1) \<Rightarrow> (case run_chains cs req1 of (req2, e2) \<Rightarrow> (req2, e1 @ e2)))"

section \<open>The database driver, as the handlers use it\<close>

text \<open>
  The pool and its connections belong to the mariadb driver: they are parameters of
  the model. A connection is its \<^verbatim>\<open>query\<close> method, which resolves to the driver's
  result object or rejects with an error; the pool is what \<^verbatim>\<open>pool.getConnection()\<close>
  settles to for the request at hand.
\<close>

type_synonym js_error = string

type_synonym sql_value = "string option"

record query_result =
  affectedRows :: int
  warningStatus :: int

type_synonym connection = "string \<Rightarrow> sql_value list \<Rightarrow> js_error + query_result"

type_synonym pool = "js_error + connection"

datatype json_body =
    JErrors "verror list"  \<comment> \<open>\<^verbatim>\<open>{ errors: errors.array() }\<close>\<close>
  | JError string          \<comment> \<open>\<^verbatim>\<open>{ error: '...' }\<close>\<close>
  | JMessage string        \<comment> \<open>\<^verbatim>\<open>{ message: '...' }\<close>\<close>

text \<open>What a handler does, in the order it does it.\<close>

datatype event =
    GetConnection                    \<comment> \<open>\<^verbatim>\<open>pool.getConnection()\<close> is awaited\<close>
  | ConsoleError string              \<comment> \<open>\<^verbatim>\<open>console.error(label, err)\<close>\<close>
  | Query string "sql_value list"    \<comment> \<open>\<^verbatim>\<open>req.db.query(sql, values)\<close> is awaited\<close>
  | Respond nat json_body            \<comment> \<open>\<^verbatim>\<open>res.status(n).json(body)\<close>; \<^verbatim>\<open>res.json(body)\<close> is status 200\<close>
  | Release                          \<comment> \<open>\<^verbatim>\<open>req.db.release()\<close>\<close>

record outcome =
  events :: "event list"
  rejected :: "js_error option"  \<comment> \<open>the error the async handler throws, if it does\<close>

definition getDbConnection :: "pool \<Rightarrow> event list \<times> (js_error + connection)" where
  "getDbConnection p =
     (case p of
        Inr c \<Rightarrow> ([GetConnection], Inr c)
      | Inl err \<Rightarrow>
          ([GetConnection, ConsoleError ''Database connection error:''],
           Inl ''Internal server error''))"

section \<open>The mutating routes of \<^verbatim>\<open>server.js\<close>\<close>

subsection \<open>POST /api/companies\<close>

definition post_chains :: "chain list" where
  "post_chains =
     [withMessage ''Company ID must be between 1 and 6 characters long''
        (isLength 1 6 (body ''companyId'')),
      withMessage ''Company Name must be between 1 and 25 characters''
        (escape (isLength 1 25 (trim (body ''companyName'')))),
      withMessage ''Company City must be between 1 and 25 characters''
        (escape (isLength 1 25 (trim (body ''companyCity''))))]"

definition post_sql :: string where
  "post_sql = ''INSERT INTO company (COMPANY_ID, COMPANY_NAME, COMPANY_CITY) VALUES (?, ?, ?)''"

definition post_companies :: "pool \<Rightarrow> request \<Rightarrow> outcome" where
  "post_companies p req0 =
     (case run_chains post_chains req0 of
        (req, errors) \<Rightarrow>
          (case getDbConnection p of
             (ev, Inl e) \<Rightarrow> \<lparr>events = ev, rejected = Some e\<rparr>
           | (ev, Inr db) \<Rightarrow>
               if errors \<noteq> [] then
                 \<lparr>events = ev @ [Respond 400 (JErrors errors)], rejected = None\<rparr>
               else
                 (let companyId = req_body req ''companyId'';
                      companyName = req_body req ''companyName'';
                      companyCity = req_body req ''companyCity'';
                      values = [companyId, companyName, companyCity]
                  in case db post_sql values of
                       Inr result \<Rightarrow>
                         \<lparr>events = ev @ [Query post_sql values,
                                         Respond 201 (JMessage ''Company created successfully''),
                                         Release],
                          rejected = None\<rparr>
                     | Inl err \<Rightarrow>
                         \<lparr>events = ev @ [Query post_sql values,
                                         ConsoleError ''Error creating company:'',
                                         Respond 500 (JError ''Internal server error''),
                                         Release],
                          rejected = None\<rparr>)))"

subsection \<open>PATCH /api/companies/:companyId\<close>

definition patch_chains :: "chain list" where
  "patch_chains =
     [withMessage ''Company ID must be between 1 and 6 characters long''
        (isLength 1 6 (param ''companyId'')),
      withMessage ''Company Name must be between 1 and 25 characters''
        (escape (isLength 1 25 (trim (optional (body ''companyName''))))),
      withMessage ''Company City must be between 1 and 25 characters''
        (escape (isLength 1 25 (trim (optional (body ''companyCity'')))))]"

definition patch_updateFields :: "sql_value \<Rightarrow> sql_value \<Rightarrow> string list" where
  "patch_updateFields companyName companyCity =
     (if truthy companyName then [''COMPANY_NAME = ?''] else []) @
     (if truthy companyCity then [''COMPANY_CITY = ?''] else [])"

definition patch_values :: "sql_value \<Rightarrow> sql_value \<Rightarrow> sql_value \<Rightarrow> sql_value list" where
  "patch_values companyId companyName companyCity =
     (if truthy companyName then [companyName] else []) @
     (if truthy companyCity then [companyCity] else []) @
     [companyId]"

definition patch_query :: "sql_value \<Rightarrow> sql_value \<Rightarrow> string" where
  "patch_query companyName companyCity =
     ''UPDATE company SET '' @ join '', '' (patch_updateFields companyName companyCity) @
     '' WHERE COMPANY_ID = ?''"

definition patch_company :: "pool \<Rightarrow> request \<Rightarrow> outcome" where
  "patch_company p req0 =
     (case run_chains patch_chains req0 of
        (req, errors) \<Rightarrow>
          (case getDbConnection p of
             (ev, Inl e) \<Rightarrow> \<lparr>events = ev, rejected = Some e\<rparr>
           | (ev, Inr db) \<Rightarrow>
               if errors \<noteq> [] then
                 \<lparr>events = ev @ [Respond 400 (JErrors errors)], rejected = None\<rparr>
               else
                 (let companyId = req_params req ''companyId'';
                      companyName = req_body req ''companyName'';
                      companyCity = req_body req ''companyCity''
                  in if \<not> truthy companyName \<and> \<not> truthy companyCity then
                       \<lparr>events = ev @ [Respond 400 (JError
                          ''At least one field (companyName or companyCity) must be provided'')],
                        rejected = None\<rparr>
                     else
                       (let query = patch_query companyName companyCity;
                            values = patch_values companyId companyName companyCity
                        in case db query values of
                             Inr result \<Rightarrow>
                               if affectedRows result = 0 then
                                 \<lparr>events = ev @ [Query query values,
                                                 Respond 404 (JError ''Company not found''),
                                                 Release],
                                  rejected = None\<rparr>
                               else
                                 \<lparr>events = ev @ [Query query values,
                                                 Respond 200 (JMessage ''Company updated successfully''),
                                                 Release],
                                  rejected = None\<rparr>
                           | Inl err \<Rightarrow>
                               \<lparr>events = ev @ [Query query values,
                                               ConsoleError ''Error updating company:'',
                                               Respond 500 (JError ''Internal server error''),
                                               Release],
                                rejected = None\<rparr>))))"

subsection \<open>PUT /api/companies/:companyId\<close>

definition put_chains :: "chain list" where
  "put_chains =
     [withMessage ''Company ID must be between 1 and 6 characters long''
        (isLength 1 6 (param ''companyId'')),
      withMessage ''Company Name must be between 1 and 25 characters''
        (escape (isLength 1 25 (trim (body ''companyName'')))),
      withMessage ''Company City must be between 1 and 25 characters''
        (escape (isLength 1 25 (trim (body ''companyCity''))))]"

definition put_sql :: string where
  "put_sql = ''INSERT INTO company (COMPANY_ID, COMPANY_NAME, COMPANY_CITY) VALUES (?, ?, ?) ON DUPLICATE KEY UPDATE COMPANY_NAME = ?, COMPANY_CITY = ?''"

definition put_company :: "pool \<Rightarrow> request \<Rightarrow> outcome" where
  "put_company p req0 =
     (case run_chains put_chains req0 of
        (req, errors) \<Rightarrow>
          (case getDbConnection p of
             (ev, Inl e) \<Rightarrow> \<lparr>events = ev, rejected = Some e\<rparr>
           | (ev, Inr db) \<Rightarrow>
               if errors \<noteq> [] then
                 \<lparr>events = ev @ [Respond 400 (JErrors errors)], rejected = None\<rparr>
               else
                 (let companyId = req_params req ''companyId'';
                      companyName = req_body req ''companyName'';
                      companyCity = req_body req ''companyCity'';
                      values = [companyId, companyName, companyCity, companyName, companyCity]
                  in case db put_sql values of
                       Inr result \<Rightarrow>
                         if affectedRows result = 1 \<and> warningStatus result = 0 then
                           \<lparr>events = ev @ [Query put_sql values,
                                           Respond 201 (JMessage ''Company created successfully''),
                                           Release],
                            rejected = None\<rparr>
                         else
                           \<lparr>events = ev @ [Query put_sql values,
                                           Respond 200 (JMessage ''Company updated successfully''),
                                           Release],
                            rejected = None\<rparr>
                     | Inl err \<Rightarrow>
                         \<lparr>events = ev @ [Query put_sql values,
                                         ConsoleError ''Error updating/creating company:'',
                                         Respond 500 (JError ''Internal server error''),
                                         Release],
                          rejected = None\<rparr>)))"

subsection \<open>DELETE /api/companies/:companyId\<close>

definition delete_chains :: "chain list" where
  "delete_chains =
     [withMessage ''Company ID must be between 1 and 6 characters long''
        (isLength 1 6 (param ''companyId''))]"

definition delete_sql :: string where
  "delete_sql = ''DELETE FROM company WHERE COMPANY_ID = ?''"

definition delete_company :: "pool \<Rightarrow> request \<Rightarrow> outcome" where
  "delete_company p req0 =
     (case run_chains delete_chains req0 of
        (req, errors) \<Rightarrow>
          (case getDbConnection p of
             (ev, Inl e) \<Rightarrow> \<lparr>events = ev, rejected = Some e\<rparr>
           | (ev, Inr db) \<Rightarrow>
               if errors \<noteq> [] then
                 \<lparr>events = ev @ [Respond 400 (JErrors errors)], rejected = None\<rparr>
               else
                 (let companyId = req_params req ''companyId'';
                      values = [companyId]
                  in case db delete_sql values of
                       Inr result \<Rightarrow>
                         if affectedRows result = 0 then
                           \<lparr>events = ev @ [Query delete_sql values,
                                           Respond 404 (JError ''Company not found''),
                                           Release],
                            rejected = None\<rparr>
                         else
                           \<lparr>events = ev @ [Query delete_sql values,
                                           Respond 200 (JMessage ''Company deleted successfully''),
                                           Release],
                            rejected = None\<rparr>
                     | Inl err \<Rightarrow>
                         \<lparr>events = ev @ [Query delete_sql values,
                                         ConsoleError ''Error deleting company:'',
                                         Respond 500 (JError ''Internal server error''),
                                         Release],
                          rejected = None\<rparr>)))"

subsection \<open>The routing table\<close>

datatype route = POST_companies | PATCH_company | PUT_company | DELETE_company

fun validators :: "route \<Rightarrow> chain list" where
  "validators POST_companies = post_chains"
| "validators PATCH_company = patch_chains"
| "validators PUT_company = put_chains"
| "validators DELETE_company = delete_chains"

fun handler :: "route \<Rightarrow> pool \<Rightarrow> request \<Rightarrow> outcome" where
  "handler POST_companies = post_companies"
| "handler PATCH_company = patch_company"
| "handler PUT_company = put_company"
| "handler DELETE_company = delete_company"

subsection \<open>Reading an outcome\<close>

fun responses :: "event list \<Rightarrow> (nat \<times> json_body) list" where
  "responses [] = []"
| "responses (Respond n b # es) = (n, b) # responses es"
| "responses (e # es) = responses es"

definition status_of :: "outcome \<Rightarrow> nat option" where
  "status_of out = (case responses (events out) of [] \<Rightarrow> None | (n, b) # _ \<Rightarrow> Some n)"

fun is_query :: "event \<Rightarrow> bool" where
  "is_query (Query sql vs) = True"
| "is_query e = False"

section \<open>Validation in closed form\<close>

text \<open>What each chain of \<^verbatim>\<open>server.js\<close> computes, and what the chains of each route
  compute together.\<close>

lemma run_chain_param_id:
  "run_chain (withMessage m (isLength mn mx (param f))) req =
     (req, if validator_isLength (toString (req_params req f)) mn mx then []
           else [\<lparr>e_value = req_params req f, e_msg = m, e_path = f, e_location = Params\<rparr>])"
  by (simp add: run_chain_def withMessage_def isLength_def param_def get_field_def set_field_def)

lemma run_chain_body_id:
  "run_chain (withMessage m (isLength mn mx (body f))) req =
     (req, if validator_isLength (toString (req_body req f)) mn mx then []
           else [\<lparr>e_value = req_body req f, e_msg = m, e_path = f, e_location = Body\<rparr>])"
  by (simp add: run_chain_def withMessage_def isLength_def body_def get_field_def set_field_def)

lemma run_chain_text:
  "run_chain (withMessage m (escape (isLength mn mx (trim (body f))))) req =
     (req\<lparr>req_body := (req_body req)(f \<mapsto> validator_escape (validator_trim (toString (req_body req f))))\<rparr>,
      if validator_isLength (validator_trim (toString (req_body req f))) mn mx then []
      else [\<lparr>e_value = Some (validator_trim (toString (req_body req f))), e_msg = m,
             e_path = f, e_location = Body\<rparr>])"
  by (simp add: run_chain_def withMessage_def escape_def isLength_def trim_def body_def
      get_field_def set_field_def toString_def Let_def)

lemma run_chain_optional_text:
  "run_chain (withMessage m (escape (isLength mn mx (trim (optional (body f)))))) req =
     (case req_body req f of
        None \<Rightarrow> (req, [])
      | Some s \<Rightarrow>
     (req\<lparr>req_body := (req_body req)(f \<mapsto> validator_escape (validator_trim s))\<rparr>,
      if validator_isLength (validator_trim s) mn mx then []
      else [\<lparr>e_value = Some (validator_trim s), e_msg = m,
             e_path = f, e_location = Body\<rparr>]))"
  by (simp add: run_chain_def withMessage_def escape_def isLength_def trim_def body_def optional_def
      get_field_def set_field_def toString_def Let_def split: option.splits)

lemmas run_chain_simps = run_chain_param_id run_chain_body_id run_chain_text run_chain_optional_text

lemma post_validation:
  "run_chains post_chains req =
     (req\<lparr>req_body := (req_body req)
         (''companyName'' \<mapsto> validator_escape (validator_trim (toString (req_body req ''companyName''))),
          ''companyCity'' \<mapsto> validator_escape (validator_trim (toString (req_body req ''companyCity''))))\<rparr>,
      (if validator_isLength (toString (req_body req ''companyId'')) 1 6 then []
       else [\<lparr>e_value = req_body req ''companyId'',
              e_msg = ''Company ID must be between 1 and 6 characters long'',
              e_path = ''companyId'', e_location = Body\<rparr>]) @
      (if validator_isLength (validator_trim (toString (req_body req ''companyName''))) 1 25 then []
       else [\<lparr>e_value = Some (validator_trim (toString (req_body req ''companyName''))),
              e_msg = ''Company Name must be between 1 and 25 characters'',
              e_path = ''companyName'', e_location = Body\<rparr>]) @
      (if validator_isLength (validator_trim (toString (req_body req ''companyCity''))) 1 25 then []
       else [\<lparr>e_value = Some (validator_trim (toString (req_body req ''companyCity''))),
              e_msg = ''Company City must be between 1 and 25 characters'',
              e_path = ''companyCity'', e_location = Body\<rparr>]))"
  by (simp add: post_chains_def run_chain_simps)

lemma put_validation:
  "run_chains put_chains req =
     (req\<lparr>req_body := (req_body req)
         (''companyName'' \<mapsto> validator_escape (validator_trim (toString (req_body req ''companyName''))),
          ''companyCity'' \<mapsto> validator_escape (validator_trim (toString (req_body req ''companyCity''))))\<rparr>,
      (if validator_isLength (toString (req_params req ''companyId'')) 1 6 then []
       else [\<lparr>e_value = req_params req ''companyId'',
              e_msg = ''Company ID must be between 1 and 6 characters long'',
              e_path = ''companyId'', e_location = Params\<rparr>]) @
      (if validator_isLength (validator_trim (toString (req_body req ''companyName''))) 1 25 then []
       else [\<lparr>e_value = Some (validator_trim (toString (req_body req ''companyName''))),
              e_msg = ''Company Name must be between 1 and 25 characters'',
              e_path = ''companyName'', e_location = Body\<rparr>]) @
      (if validator_isLength (validator_trim (toString (req_body req ''companyCity''))) 1 25 then []
       else [\<lparr>e_value = Some (validator_trim (toString (req_body req ''companyCity''))),
              e_msg = ''Company City must be between 1 and 25 characters'',
              e_path = ''companyCity'', e_location = Body\<rparr>]))"
  by (simp add: put_chains_def run_chain_simps)

lemma delete_validation:
  "run_chains delete_chains req =
     (req,
      (if validator_isLength (toString (req_params req ''companyId'')) 1 6 then []
       else [\<lparr>e_value = req_params req ''companyId'',
              e_msg = ''Company ID must be between 1 and 6 characters long'',
              e_path = ''companyId'', e_location = Params\<rparr>]))"
  by (simp add: delete_chains_def run_chain_simps)

lemma patch_validation:
  "run_chains patch_chains req =
     (req\<lparr>req_body := (req_body req)
         (''companyName'' := map_option (\<lambda>s. validator_escape (validator_trim s)) (req_body req ''companyName''),
          ''companyCity'' := map_option (\<lambda>s. validator_escape (validator_trim s)) (req_body req ''companyCity''))\<rparr>,
      (if validator_isLength (toString (req_params req ''companyId'')) 1 6 then []
       else [\<lparr>e_value = req_params req ''companyId'',
              e_msg = ''Company ID must be between 1 and 6 characters long'',
              e_path = ''companyId'', e_location = Params\<rparr>]) @
      (case req_body req ''companyName'' of None \<Rightarrow> [] | Some s \<Rightarrow>
       if validator_isLength (validator_trim s) 1 25 then []
       else [\<lparr>e_value = Some (validator_trim s),
              e_msg = ''Company Name must be between 1 and 25 characters'',
              e_path = ''companyName'', e_location = Body\<rparr>]) @
      (case req_body req ''companyCity'' of None \<Rightarrow> [] | Some s \<Rightarrow>
       if validator_isLength (validator_trim s) 1 25 then []
       else [\<lparr>e_value = Some (validator_trim s),
              e_msg = ''Company City must be between 1 and 25 characters'',
              e_path = ''companyCity'', e_location = Body\<rparr>]))"
  by (simp add: patch_chains_def run_chain_simps fun_upd_idem split: option.splits)

section \<open>Facts about the helpers\<close>

lemma getDbConnection_Inr: "getDbConnection (Inr db) = ([GetConnection], Inr db)"
  by (simp add: getDbConnection_def)

lemma getDbConnection_Inl:
  "getDbConnection (Inl e) =
     ([GetConnection, ConsoleError ''Database connection error:''], Inl ''Internal server error'')"
  by (simp add: getDbConnection_def)

lemma escape_char_not_Nil: "escape_char c \<noteq> []"
  by simp

lemma validator_escape_Nil_iff: "validator_escape s = [] \<longleftrightarrow> s = []"
  by (cases s) (simp_all add: validator_escape_def)

lemma truthy_sanitized:
  "truthy (Some (validator_escape (validator_trim s))) \<longleftrightarrow> 1 \<le> length (validator_trim s)"
  by (cases "validator_trim s") (simp_all add: truthy_def validator_escape_Nil_iff)

lemma truthy_None: "\<not> truthy None"
  by (simp add: truthy_def)

lemma patch_query_prefix: "\<exists>rest. patch_query a b = ''UPDATE company SET '' @ rest"
  unfolding patch_query_def by (rule exI) (rule refl)

lemma handler_validation_failure:
  assumes "snd (run_chains (validators r) req) \<noteq> []"
  shows "handler r p req =
     (case p of
        Inr db \<Rightarrow>
          \<lparr>events = [GetConnection, Respond 400 (JErrors (snd (run_chains (validators r) req)))],
           rejected = None\<rparr>
      | Inl e \<Rightarrow>
          \<lparr>events = [GetConnection, ConsoleError ''Database connection error:''],
           rejected = Some ''Internal server error''\<rparr>)"
  using assms
  by (cases r; cases p)
    (auto simp: post_companies_def patch_company_def put_company_def delete_company_def
      getDbConnection_def split: prod.splits)

lemma handler_no_connection:
  "handler r (Inl e) req =
     \<lparr>events = [GetConnection, ConsoleError ''Database connection error:''],
      rejected = Some ''Internal server error''\<rparr>"
  by (cases r)
    (simp_all add: post_companies_def patch_company_def put_company_def delete_company_def
      getDbConnection_def split: prod.splits)

section \<open>The statements a handler sends\<close>

lemma post_queries:
  assumes "Query sql vs \<in> set (events (post_companies p req))"
  shows "sql = post_sql \<and>
         vs = [req_body req ''companyId'',
               Some (validator_escape (validator_trim (toString (req_body req ''companyName'')))),
               Some (validator_escape (validator_trim (toString (req_body req ''companyCity''))))]"
  using assms
  by (cases p)
    (auto simp: post_companies_def post_validation getDbConnection_def Let_def
      split: if_splits sum.splits)

lemma put_queries:
  assumes "Query sql vs \<in> set (events (put_company p req))"
  shows "sql = put_sql \<and>
         vs = [req_params req ''companyId'',
               Some (validator_escape (validator_trim (toString (req_body req ''companyName'')))),
               Some (validator_escape (validator_trim (toString (req_body req ''companyCity'')))),
               Some (validator_escape (validator_trim (toString (req_body req ''companyName'')))),
               Some (validator_escape (validator_trim (toString (req_body req ''companyCity''))))]"
  using assms
  by (cases p)
    (auto simp: put_company_def put_validation getDbConnection_def Let_def
      split: if_splits sum.splits)

lemma delete_queries:
  assumes "Query sql vs \<in> set (events (delete_company p req))"
  shows "sql = delete_sql \<and> vs = [req_params req ''companyId'']"
  using assms
  by (cases p)
    (auto simp: delete_company_def delete_validation getDbConnection_def Let_def
      split: if_splits sum.splits)

lemma patch_queries:
  assumes "Query sql vs \<in> set (events (patch_company p req))"
  shows "\<exists>a b. (truthy a \<or> truthy b) \<and>
           a = map_option (\<lambda>s. validator_escape (validator_trim s)) (req_body req ''companyName'') \<and>
           b = map_option (\<lambda>s. validator_escape (validator_trim s)) (req_body req ''companyCity'') \<and>
           sql = patch_query a b \<and>
           vs = patch_values (req_params req ''companyId'') a b"
  using assms
  by (cases p)
    (auto simp: patch_company_def patch_validation getDbConnection_def Let_def
      split: if_splits sum.splits)

lemma patch_query_shape:
  assumes "truthy a \<or> truthy b"
  shows "\<exists>fs. fs \<noteq> [] \<and> set fs \<subseteq> {''COMPANY_NAME = ?'', ''COMPANY_CITY = ?''} \<and>
           patch_query a b = ''UPDATE company SET '' @ join '', '' fs @ '' WHERE COMPANY_ID = ?'' \<and>
           length (patch_values i a b) = length fs + 1 \<and>
           last (patch_values i a b) = i"
  using assms
  by (intro exI [of _ "patch_updateFields a b"])
    (auto simp: patch_query_def patch_updateFields_def patch_values_def)

lemma put_sql_shape:
  "put_sql =
     ''INSERT INTO company (COMPANY_ID, COMPANY_NAME, COMPANY_CITY) VALUES (?, ?, ?)'' @
     '' ON DUPLICATE KEY UPDATE '' @ ''COMPANY_NAME = ?, COMPANY_CITY = ?''"
  by (simp add: put_sql_def)

lemma patch_values_shape:
  assumes "a = map_option (\<lambda>s. validator_escape (validator_trim s)) nm"
    and "b = map_option (\<lambda>s. validator_escape (validator_trim s)) ct"
  shows "last (patch_values i a b) = i \<and>
         set (butlast (patch_values i a b)) \<subseteq>
           {Some (validator_escape (validator_trim (toString nm))),
            Some (validator_escape (validator_trim (toString ct)))}"
  using assms
  by (cases nm; cases ct) (auto simp: patch_values_def truthy_def toString_def)

lemma post_sends:
  assumes "validator_isLength (toString (req_body req ''companyId'')) 1 6"
    and "validator_isLength (validator_trim (toString (req_body req ''companyName''))) 1 25"
    and "validator_isLength (validator_trim (toString (req_body req ''companyCity''))) 1 25"
  shows "Query post_sql
           [req_body req ''companyId'',
            Some (validator_escape (validator_trim (toString (req_body req ''companyName'')))),
            Some (validator_escape (validator_trim (toString (req_body req ''companyCity''))))]
         \<in> set (events (post_companies (Inr db) req))"
  using assms
  by (simp add: post_companies_def post_validation getDbConnection_Inr Let_def split: sum.splits)

lemma put_sends:
  assumes "validator_isLength (toString (req_params req ''companyId'')) 1 6"
    and "validator_isLength (validator_trim (toString (req_body req ''companyName''))) 1 25"
    and "validator_isLength (validator_trim (toString (req_body req ''companyCity''))) 1 25"
  shows "Query put_sql
           [req_params req ''companyId'',
            Some (validator_escape (validator_trim (toString (req_body req ''companyName'')))),
            Some (validator_escape (validator_trim (toString (req_body req ''companyCity'')))),
            Some (validator_escape (validator_trim (toString (req_body req ''companyName'')))),
            Some (validator_escape (validator_trim (toString (req_body req ''companyCity''))))]
         \<in> set (events (put_company (Inr db) req))"
  using assms
  by (simp add: put_company_def put_validation getDbConnection_Inr Let_def split: sum.splits)

lemma delete_sends:
  assumes "validator_isLength (toString (req_params req ''companyId'')) 1 6"
  shows "Query delete_sql [req_params req ''companyId'']
         \<in> set (events (delete_company (Inr db) req))"
  using assms
  by (simp add: delete_company_def delete_validation getDbConnection_Inr Let_def split: sum.splits)

lemma patch_sends:
  assumes "validator_isLength (toString (req_params req ''companyId'')) 1 6"
    and "req_body req ''companyName'' = None \<or>
         validator_isLength (validator_trim (toString (req_body req ''companyName''))) 1 25"
    and "req_body req ''companyCity'' = None \<or>
         validator_isLength (validator_trim (toString (req_body req ''companyCity''))) 1 25"
    and "req_body req ''companyName'' \<noteq> None \<or> req_body req ''companyCity'' \<noteq> None"
  shows "Query
           (patch_query
              (map_option (\<lambda>s. validator_escape (validator_trim s)) (req_body req ''companyName''))
              (map_option (\<lambda>s. validator_escape (validator_trim s)) (req_body req ''companyCity'')))
           (patch_values (req_params req ''companyId'')
              (map_option (\<lambda>s. validator_escape (validator_trim s)) (req_body req ''companyName''))
              (map_option (\<lambda>s. validator_escape (validator_trim s)) (req_body req ''companyCity'')))
         \<in> set (events (patch_company (Inr db) req))"
  using assms
  by (auto simp: patch_company_def patch_validation getDbConnection_Inr Let_def toString_def
      truthy_sanitized truthy_None validator_isLength_def split: sum.splits option.splits)

section \<open>The fields a validation reports\<close>

lemma post_error_paths:
  "map e_path (snd (run_chains post_chains req)) =
     (if validator_isLength (toString (req_body req ''companyId'')) 1 6 then []
      else [''companyId'']) @
     (if validator_isLength (validator_trim (toString (req_body req ''companyName''))) 1 25 then []
      else [''companyName'']) @
     (if validator_isLength (validator_trim (toString (req_body req ''companyCity''))) 1 25 then []
      else [''companyCity''])"
  by (simp add: post_validation)

lemma put_error_paths:
  "map e_path (snd (run_chains put_chains req)) =
     (if validator_isLength (toString (req_params req ''companyId'')) 1 6 then []
      else [''companyId'']) @
     (if validator_isLength (validator_trim (toString (req_body req ''companyName''))) 1 25 then []
      else [''companyName'']) @
     (if validator_isLength (validator_trim (toString (req_body req ''companyCity''))) 1 25 then []
      else [''companyCity''])"
  by (simp add: put_validation)

lemma patch_error_paths:
  "map e_path (snd (run_chains patch_chains req)) =
     (if validator_isLength (toString (req_params req ''companyId'')) 1 6 then []
      else [''companyId'']) @
     (if req_body req ''companyName'' = None \<or>
         validator_isLength (validator_trim (toString (req_body req ''companyName''))) 1 25 then []
      else [''companyName'']) @
     (if req_body req ''companyCity'' = None \<or>
         validator_isLength (validator_trim (toString (req_body req ''companyCity''))) 1 25 then []
      else [''companyCity''])"
  by (simp add: patch_validation toString_def split: option.splits)

lemma delete_error_paths:
  "map e_path (snd (run_chains delete_chains req)) =
     (if validator_isLength (toString (req_params req ''companyId'')) 1 6 then []
      else [''companyId''])"
  by (simp add: delete_validation)

lemmas error_paths = post_error_paths put_error_paths patch_error_paths delete_error_paths

lemma id_error_iff:
  "''companyId'' \<in> e_path ` set (snd (run_chains post_chains req)) \<longleftrightarrow>
     \<not> validator_isLength (toString (req_body req ''companyId'')) 1 6"
  "''companyId'' \<in> e_path ` set (snd (run_chains patch_chains req)) \<longleftrightarrow>
     \<not> validator_isLength (toString (req_params req ''companyId'')) 1 6"
  "''companyId'' \<in> e_path ` set (snd (run_chains put_chains req)) \<longleftrightarrow>
     \<not> validator_isLength (toString (req_params req ''companyId'')) 1 6"
  "''companyId'' \<in> e_path ` set (snd (run_chains delete_chains req)) \<longleftrightarrow>
     \<not> validator_isLength (toString (req_params req ''companyId'')) 1 6"
  unfolding set_map [symmetric] error_paths by simp_all

lemma id_kept:
  "req_body (fst (run_chains post_chains req)) ''companyId'' = req_body req ''companyId''"
  "req_params (fst (run_chains patch_chains req)) ''companyId'' = req_params req ''companyId''"
  "req_params (fst (run_chains put_chains req)) ''companyId'' = req_params req ''companyId''"
  "req_params (fst (run_chains delete_chains req)) ''companyId'' = req_params req ''companyId''"
  by (simp_all add: post_validation patch_validation put_validation delete_validation)

lemma text_error_iff:
  "''companyName'' \<in> e_path ` set (snd (run_chains post_chains req)) \<longleftrightarrow>
     \<not> validator_isLength (validator_trim (toString (req_body req ''companyName''))) 1 25"
  "''companyCity'' \<in> e_path ` set (snd (run_chains post_chains req)) \<longleftrightarrow>
     \<not> validator_isLength (validator_trim (toString (req_body req ''companyCity''))) 1 25"
  "''companyName'' \<in> e_path ` set (snd (run_chains put_chains req)) \<longleftrightarrow>
     \<not> validator_isLength (validator_trim (toString (req_body req ''companyName''))) 1 25"
  "''companyCity'' \<in> e_path ` set (snd (run_chains put_chains req)) \<longleftrightarrow>
     \<not> validator_isLength (validator_trim (toString (req_body req ''companyCity''))) 1 25"
  "''companyName'' \<in> e_path ` set (snd (run_chains patch_chains req)) \<longleftrightarrow>
     req_body req ''companyName'' \<noteq> None \<and>
     \<not> validator_isLength (validator_trim (toString (req_body req ''companyName''))) 1 25"
  "''companyCity'' \<in> e_path ` set (snd (run_chains patch_chains req)) \<longleftrightarrow>
     req_body req ''companyCity'' \<noteq> None \<and>
     \<not> validator_isLength (validator_trim (toString (req_body req ''companyCity''))) 1 25"
  unfolding set_map [symmetric] error_paths by auto

section \<open>The claims\<close>

text \<open>
  C1 (the connection is released on every exit path). The code does not do this: the
  early \<^verbatim>\<open>return res.status(400)\<close> stands before the \<^verbatim>\<open>try\<close> whose \<^verbatim>\<open>finally\<close>
  releases. A POST whose \<^verbatim>\<open>companyId\<close> has seven characters acquires a connection,
  answers 400 and ends; no \<open>Release\<close> follows.
\<close>

theorem post_invalid_id_never_releases:
  "events (post_companies (Inr (\<lambda>sql vs. Inr \<lparr>affectedRows = 1, warningStatus = 0\<rparr>))
      \<lparr>req_params = Map.empty,
       req_body = [''companyId'' \<mapsto> ''TOOLONG'', ''companyName'' \<mapsto> ''TechCorp'',
                   ''companyCity'' \<mapsto> ''San Francisco'']\<rparr>) =
     [GetConnection,
      Respond 400 (JErrors
        [\<lparr>e_value = Some ''TOOLONG'',
          e_msg = ''Company ID must be between 1 and 6 characters long'',
          e_path = ''companyId'', e_location = Body\<rparr>])]"
  by (simp add: post_companies_def post_validation getDbConnection_Inr validator_isLength_def
      toString_def validator_trim_def is_space_def)

text \<open>
  C2, as stated (the 400 of a failed validation is produced before any interaction with
  the database, no connection being acquired), fails: every handler awaits
  \<^verbatim>\<open>getDbConnection()\<close> before it reads \<^verbatim>\<open>validationResult(req)\<close>. A PUT without
  \<^verbatim>\<open>companyCity\<close> fails validation, and the connection is acquired before the 400.
\<close>

theorem put_invalid_acquires_connection_first:
  "snd (run_chains put_chains
      \<lparr>req_params = [''companyId'' \<mapsto> ''C001''],
       req_body = [''companyName'' \<mapsto> ''TechCorp'']\<rparr>) \<noteq> [] \<and>
   events (put_company (Inr (\<lambda>sql vs. Inr \<lparr>affectedRows = 1, warningStatus = 0\<rparr>))
      \<lparr>req_params = [''companyId'' \<mapsto> ''C001''],
       req_body = [''companyName'' \<mapsto> ''TechCorp'']\<rparr>) =
     [GetConnection,
      Respond 400 (JErrors
        [\<lparr>e_value = Some [],
          e_msg = ''Company City must be between 1 and 25 characters'',
          e_path = ''companyCity'', e_location = Body\<rparr>])]"
  by (simp add: put_company_def put_validation getDbConnection_Inr validator_isLength_def
      toString_def validator_trim_def is_space_def)

text \<open>
  C2, amended: on every mutating route, a request that fails field validation runs no
  SQL statement, whatever the pool does; when the pool hands out a connection, the handler
  acquires it first and then answers 400 with the validation errors.
\<close>

theorem validation_failure_runs_no_statement:
  assumes "snd (run_chains (validators r) req) \<noteq> []"
  shows "\<not> list_ex is_query (events (handler r p req)) \<and>
         filter (\<lambda>e. e \<noteq> Release) (events (handler r (Inr db) req)) =
           [GetConnection, Respond 400 (JErrors (snd (run_chains (validators r) req)))]"
  using assms by (cases p) (simp_all add: handler_validation_failure)

text \<open>
  Witness for C2 amended: a DELETE whose id has seven characters.
\<close>

theorem validation_failure_runs_no_statement_witness:
  "snd (run_chains (validators DELETE_company)
      \<lparr>req_params = [''companyId'' \<mapsto> ''TOOLONG''], req_body = Map.empty\<rparr>) \<noteq> [] \<and>
   filter (\<lambda>e. e \<noteq> Release)
     (events (handler DELETE_company (Inr (\<lambda>sql vs. Inr \<lparr>affectedRows = 1, warningStatus = 0\<rparr>))
        \<lparr>req_params = [''companyId'' \<mapsto> ''TOOLONG''], req_body = Map.empty\<rparr>)) =
     [GetConnection,
      Respond 400 (JErrors
        [\<lparr>e_value = Some ''TOOLONG'',
          e_msg = ''Company ID must be between 1 and 6 characters long'',
          e_path = ''companyId'', e_location = Params\<rparr>])]"
  using validation_failure_runs_no_statement [of DELETE_company
      "\<lparr>req_params = [''companyId'' \<mapsto> ''TOOLONG''], req_body = Map.empty\<rparr>"
      "Inr (\<lambda>sql vs. Inr \<lparr>affectedRows = 1, warningStatus = 0\<rparr>)"
      "\<lambda>sql vs. Inr \<lparr>affectedRows = 1, warningStatus = 0\<rparr>"]
  by (simp add: delete_validation validator_isLength_def toString_def)



text \<open>
  C4: a PATCH with a valid id and at least one field supplied, every supplied field
  valid, whose UPDATE reports zero affected rows, is answered 404. The UPDATE is the only
  statement the handler runs: no existence check precedes it.
\<close>

theorem patch_zero_rows_404:
  assumes id: "req_params req ''companyId'' = Some cid" "1 \<le> length cid" "length cid \<le> 6"
    and nm: "req_body req ''companyName'' = nm"
      "case nm of None \<Rightarrow> True
       | Some s \<Rightarrow> 1 \<le> length (validator_trim s) \<and> length (validator_trim s) \<le> 25"
    and ct: "req_body req ''companyCity'' = ct"
      "case ct of None \<Rightarrow> True
       | Some s \<Rightarrow> 1 \<le> length (validator_trim s) \<and> length (validator_trim s) \<le> 25"
    and supplied: "nm \<noteq> None \<or> ct \<noteq> None"
    and sanitized: "nm' = map_option (\<lambda>s. validator_escape (validator_trim s)) nm"
      "ct' = map_option (\<lambda>s. validator_escape (validator_trim s)) ct"
    and q: "db (patch_query nm' ct') (patch_values (Some cid) nm' ct') = Inr result"
      "affectedRows result = 0"
  shows "events (patch_company (Inr db) req) =
           [GetConnection,
            Query (patch_query nm' ct') (patch_values (Some cid) nm' ct'),
            Respond 404 (JError ''Company not found''),
            Release] \<and>
         rejected (patch_company (Inr db) req) = None \<and>
         (\<exists>rest. patch_query nm' ct' = ''UPDATE company SET '' @ rest)"
proof -
  have "events (patch_company (Inr db) req) =
           [GetConnection,
            Query (patch_query nm' ct') (patch_values (Some cid) nm' ct'),
            Respond 404 (JError ''Company not found''),
            Release] \<and>
         rejected (patch_company (Inr db) req) = None"
    using assms
    by (auto simp: patch_company_def patch_validation getDbConnection_Inr Let_def
        validator_isLength_def toString_def truthy_sanitized truthy_None
        split: option.splits)
  then show ?thesis
    using patch_query_prefix [of nm' ct'] by blast
qed

text \<open>
  Witness for C4: the name \<^verbatim>\<open>" Acme "\<close> for an id the table does not hold.
\<close>

theorem patch_zero_rows_404_witness:
  "events (patch_company (Inr (\<lambda>sql vs. Inr \<lparr>affectedRows = 0, warningStatus = 0\<rparr>))
      \<lparr>req_params = [''companyId'' \<mapsto> ''C999''],
       req_body = [''companyName'' \<mapsto> '' Acme '']\<rparr>) =
     [GetConnection,
      Query ''UPDATE company SET COMPANY_NAME = ? WHERE COMPANY_ID = ?'' [Some ''Acme'', Some ''C999''],
      Respond 404 (JError ''Company not found''),
      Release]"
  using patch_zero_rows_404 [of
      "\<lparr>req_params = [''companyId'' \<mapsto> ''C999''], req_body = [''companyName'' \<mapsto> '' Acme '']\<rparr>"
      "''C999''" "Some '' Acme ''" None "Some ''Acme''" None
      "\<lambda>sql vs. Inr \<lparr>affectedRows = 0, warningStatus = 0\<rparr>"
      "\<lparr>affectedRows = 0, warningStatus = 0\<rparr>"]
  by (simp add: validator_trim_def validator_escape_def is_space_def patch_query_def
      patch_values_def patch_updateFields_def truthy_def)

text \<open>
  C5, as stated (every PATCH with neither field is answered 400), fails:
  when \<^verbatim>\<open>pool.getConnection()\<close> rejects,
  \<^verbatim>\<open>getDbConnection()\<close> throws outside the \<^verbatim>\<open>try\<close> and the handler ends without a
  response.
  A PATCH with neither field and a rejecting pool gets no status at all.
\<close>

theorem patch_no_fields_rejecting_pool:
  "req_body \<lparr>req_params = [''companyId'' \<mapsto> ''C001''], req_body = Map.empty\<rparr> ''companyName'' = None \<and>
   req_body \<lparr>req_params = [''companyId'' \<mapsto> ''C001''], req_body = Map.empty\<rparr> ''companyCity'' = None \<and>
   status_of (patch_company (Inl ''pool timeout'')
      \<lparr>req_params = [''companyId'' \<mapsto> ''C001''], req_body = Map.empty\<rparr>) = None \<and>
   patch_company (Inl ''pool timeout'')
      \<lparr>req_params = [''companyId'' \<mapsto> ''C001''], req_body = Map.empty\<rparr> =
     \<lparr>events = [GetConnection, ConsoleError ''Database connection error:''],
      rejected = Some ''Internal server error''\<rparr>"
  by (simp add: patch_company_def getDbConnection_Inl status_of_def split: prod.splits)

text \<open>
  C5, amended: once the handler holds a connection, a PATCH that supplies neither
  \<^verbatim>\<open>companyName\<close> nor \<^verbatim>\<open>companyCity\<close> is answered 400, whatever its id; and whatever the
  pool does it runs no statement, so whether the id names a row plays no part.
\<close>

theorem patch_no_fields_400:
  assumes "req_body req ''companyName'' = None" "req_body req ''companyCity'' = None"
  shows "status_of (patch_company (Inr db) req) = Some 400 \<and>
         \<not> list_ex is_query (events (patch_company p req))"
  using assms
  by (cases p)
    (simp_all add: patch_company_def patch_validation getDbConnection_def status_of_def
      truthy_def Let_def)

text \<open>
  Witness for C5 amended: a valid id and an id of eight characters.
\<close>

theorem patch_no_fields_400_witness:
  "status_of (patch_company (Inr (\<lambda>sql vs. Inr \<lparr>affectedRows = 1, warningStatus = 0\<rparr>))
      \<lparr>req_params = [''companyId'' \<mapsto> ''C001''], req_body = Map.empty\<rparr>) = Some 400 \<and>
   status_of (patch_company (Inr (\<lambda>sql vs. Inr \<lparr>affectedRows = 1, warningStatus = 0\<rparr>))
      \<lparr>req_params = [''companyId'' \<mapsto> ''TOOLONG1''], req_body = Map.empty\<rparr>) = Some 400"
  using
    patch_no_fields_400 [of
      "\<lparr>req_params = [''companyId'' \<mapsto> ''C001''], req_body = Map.empty\<rparr>"
      "\<lambda>sql vs. Inr \<lparr>affectedRows = 1, warningStatus = 0\<rparr>"]
    patch_no_fields_400 [of
      "\<lparr>req_params = [''companyId'' \<mapsto> ''TOOLONG1''], req_body = Map.empty\<rparr>"
      "\<lambda>sql vs. Inr \<lparr>affectedRows = 1, warningStatus = 0\<rparr>"]
  by simp

text \<open>
  C7: PATCH and PUT never assign the id column. Every statement the PATCH handler sends
  is \<^verbatim>\<open>UPDATE company SET\<close> followed by one or both of \<^verbatim>\<open>COMPANY_NAME = ?\<close> and
  \<^verbatim>\<open>COMPANY_CITY = ?\<close> and by \<^verbatim>\<open>WHERE COMPANY_ID = ?\<close>, the request's id being bound to
  the last placeholder; every statement the PUT handler sends is the upsert whose
  \<^verbatim>\<open>ON DUPLICATE KEY UPDATE\<close> clause assigns \<^verbatim>\<open>COMPANY_NAME\<close> and \<^verbatim>\<open>COMPANY_CITY\<close> only.
\<close>

theorem patch_and_put_never_assign_id:
  "(\<forall>sql vs. Query sql vs \<in> set (events (patch_company p req)) \<longrightarrow>
      (\<exists>fs. fs \<noteq> [] \<and> set fs \<subseteq> {''COMPANY_NAME = ?'', ''COMPANY_CITY = ?''} \<and>
         sql = ''UPDATE company SET '' @ join '', '' fs @ '' WHERE COMPANY_ID = ?'' \<and>
         length vs = length fs + 1 \<and>
         last vs = req_params req ''companyId'')) \<and>
   (\<forall>sql vs. Query sql vs \<in> set (events (put_company p req)) \<longrightarrow>
      sql =
        ''INSERT INTO company (COMPANY_ID, COMPANY_NAME, COMPANY_CITY) VALUES (?, ?, ?)'' @
        '' ON DUPLICATE KEY UPDATE '' @ ''COMPANY_NAME = ?, COMPANY_CITY = ?'' \<and>
      (\<exists>n c. vs = [req_params req ''companyId'', n, c, n, c]))"
proof (intro conjI allI impI)
  fix sql vs
  assume "Query sql vs \<in> set (events (patch_company p req))"
  then obtain a b where ab: "truthy a \<or> truthy b" "sql = patch_query a b"
      "vs = patch_values (req_params req ''companyId'') a b"
    using patch_queries by blast
  from patch_query_shape [OF ab(1), of "req_params req ''companyId''"]
  show "\<exists>fs. fs \<noteq> [] \<and> set fs \<subseteq> {''COMPANY_NAME = ?'', ''COMPANY_CITY = ?''} \<and>
         sql = ''UPDATE company SET '' @ join '', '' fs @ '' WHERE COMPANY_ID = ?'' \<and>
         length vs = length fs + 1 \<and>
         last vs = req_params req ''companyId''"
    unfolding ab(2,3) .
next
  fix sql vs
  assume q: "Query sql vs \<in> set (events (put_company p req))"
  from put_queries [OF q] show "sql =
        ''INSERT INTO company (COMPANY_ID, COMPANY_NAME, COMPANY_CITY) VALUES (?, ?, ?)'' @
        '' ON DUPLICATE KEY UPDATE '' @ ''COMPANY_NAME = ?, COMPANY_CITY = ?''"
    using put_sql_shape by simp
  from put_queries [OF q] show "\<exists>n c. vs = [req_params req ''companyId'', n, c, n, c]"
    by blast
qed

text \<open>
  Witness for C7: a PATCH and a PUT of both fields.
\<close>

theorem patch_and_put_never_assign_id_witness:
  "Query ''UPDATE company SET COMPANY_NAME = ?, COMPANY_CITY = ? WHERE COMPANY_ID = ?''
      [Some ''Acme'', Some ''Oslo'', Some ''C001'']
     \<in> set (events (patch_company (Inr (\<lambda>sql vs. Inr \<lparr>affectedRows = 1, warningStatus = 0\<rparr>))
          \<lparr>req_params = [''companyId'' \<mapsto> ''C001''],
           req_body = [''companyName'' \<mapsto> ''Acme'', ''companyCity'' \<mapsto> ''Oslo'']\<rparr>)) \<and>
   (\<exists>fs. fs \<noteq> [] \<and> set fs \<subseteq> {''COMPANY_NAME = ?'', ''COMPANY_CITY = ?''} \<and>
      ''UPDATE company SET COMPANY_NAME = ?, COMPANY_CITY = ? WHERE COMPANY_ID = ?'' =
        ''UPDATE company SET '' @ join '', '' fs @ '' WHERE COMPANY_ID = ?'') \<and>
   Query put_sql [Some ''C001'', Some ''Acme'', Some ''Oslo'', Some ''Acme'', Some ''Oslo'']
     \<in> set (events (put_company (Inr (\<lambda>sql vs. Inr \<lparr>affectedRows = 1, warningStatus = 0\<rparr>))
          \<lparr>req_params = [''companyId'' \<mapsto> ''C001''],
           req_body = [''companyName'' \<mapsto> ''Acme'', ''companyCity'' \<mapsto> ''Oslo'']\<rparr>))"
proof -
  let ?p = "Inr (\<lambda>sql vs. Inr \<lparr>affectedRows = 1, warningStatus = 0\<rparr>) :: pool"
  let ?req = "\<lparr>req_params = [''companyId'' \<mapsto> ''C001''],
               req_body = [''companyName'' \<mapsto> ''Acme'', ''companyCity'' \<mapsto> ''Oslo'']\<rparr>"
  have patch: "Query ''UPDATE company SET COMPANY_NAME = ?, COMPANY_CITY = ? WHERE COMPANY_ID = ?''
      [Some ''Acme'', Some ''Oslo'', Some ''C001''] \<in> set (events (patch_company ?p ?req))"
    by (simp add: patch_company_def patch_validation getDbConnection_Inr validator_isLength_def
        toString_def validator_trim_def validator_escape_def is_space_def truthy_def
        patch_query_def patch_values_def patch_updateFields_def Let_def)
  have put: "Query put_sql [Some ''C001'', Some ''Acme'', Some ''Oslo'', Some ''Acme'', Some ''Oslo'']
      \<in> set (events (put_company ?p ?req))"
    by (simp add: put_company_def put_validation getDbConnection_Inr validator_isLength_def
        toString_def validator_trim_def validator_escape_def is_space_def Let_def)
  from patch_and_put_never_assign_id [of ?p ?req] patch
  have "\<exists>fs. fs \<noteq> [] \<and> set fs \<subseteq> {''COMPANY_NAME = ?'', ''COMPANY_CITY = ?''} \<and>
      ''UPDATE company SET COMPANY_NAME = ?, COMPANY_CITY = ? WHERE COMPANY_ID = ?'' =
        ''UPDATE company SET '' @ join '', '' fs @ '' WHERE COMPANY_ID = ?''"
    by blast
  with patch put show ?thesis by blast
qed

text \<open>
  C8, as stated, fails in its second half: a name of trimmed length 26 is not answered
  400 when the pool rejects, since
  when \<^verbatim>\<open>pool.getConnection()\<close> rejects,
  \<^verbatim>\<open>getDbConnection()\<close> throws outside the \<^verbatim>\<open>try\<close> and the handler ends without a
  response.
\<close>

theorem post_name_26_rejecting_pool:
  "length (validator_trim ''ABCDEFGHIJKLMNOPQRSTUVWXYZ'') = 26 \<and>
   post_companies (Inl ''pool timeout'')
      \<lparr>req_params = Map.empty,
       req_body = [''companyId'' \<mapsto> ''C001'', ''companyName'' \<mapsto> ''ABCDEFGHIJKLMNOPQRSTUVWXYZ'',
                   ''companyCity'' \<mapsto> ''Oslo'']\<rparr> =
     \<lparr>events = [GetConnection, ConsoleError ''Database connection error:''],
      rejected = Some ''Internal server error''\<rparr> \<and>
   responses (events (post_companies (Inl ''pool timeout'')
      \<lparr>req_params = Map.empty,
       req_body = [''companyId'' \<mapsto> ''C001'', ''companyName'' \<mapsto> ''ABCDEFGHIJKLMNOPQRSTUVWXYZ'',
                   ''companyCity'' \<mapsto> ''Oslo'']\<rparr>)) = []"
  by (simp add: post_companies_def getDbConnection_Inl validator_trim_def is_space_def
      split: prod.splits)

text \<open>
  C8, amended: on POST, a \<^verbatim>\<open>companyName\<close> whose trimmed length is 25 raises no
  validation error for that field, and with a valid id and city the request passes
  validation and the INSERT is sent; one whose trimmed length is 26 fails validation with an
  error that names \<^verbatim>\<open>companyName\<close>, and once the handler holds a connection it is answered
  400 with that error in the body.
\<close>

theorem post_name_length_boundary:
  assumes "req_body req ''companyName'' = Some nm"
  shows "(length (validator_trim nm) = 25 \<longrightarrow>
            ''companyName'' \<notin> e_path ` set (snd (run_chains post_chains req))) \<and>
         (length (validator_trim nm) = 25 \<and>
          validator_isLength (toString (req_body req ''companyId'')) 1 6 \<and>
          validator_isLength (validator_trim (toString (req_body req ''companyCity''))) 1 25 \<longrightarrow>
            snd (run_chains post_chains req) = [] \<and>
            Query post_sql
              [req_body req ''companyId'',
               Some (validator_escape (validator_trim nm)),
               Some (validator_escape (validator_trim (toString (req_body req ''companyCity''))))]
            \<in> set (events (post_companies (Inr db) req))) \<and>
         (length (validator_trim nm) = 26 \<longrightarrow>
            ''companyName'' \<in> e_path ` set (snd (run_chains post_chains req)) \<and>
            responses (events (post_companies (Inr db) req)) =
              [(400, JErrors (snd (run_chains post_chains req)))])"
proof (intro conjI impI)
  assume "length (validator_trim nm) = 25"
  with assms show "''companyName'' \<notin> e_path ` set (snd (run_chains post_chains req))"
    by (simp add: text_error_iff validator_isLength_def toString_def)
next
  assume a: "length (validator_trim nm) = 25 \<and>
          validator_isLength (toString (req_body req ''companyId'')) 1 6 \<and>
          validator_isLength (validator_trim (toString (req_body req ''companyCity''))) 1 25"
  with assms have nm: "validator_isLength (validator_trim (toString (req_body req ''companyName''))) 1 25"
    by (simp add: validator_isLength_def toString_def)
  from a nm show "snd (run_chains post_chains req) = []"
    by (simp add: post_validation)
  from post_sends [of req db] a nm assms
  show "Query post_sql
              [req_body req ''companyId'',
               Some (validator_escape (validator_trim nm)),
               Some (validator_escape (validator_trim (toString (req_body req ''companyCity''))))]
            \<in> set (events (post_companies (Inr db) req))"
    by (simp add: toString_def)
next
  assume "length (validator_trim nm) = 26"
  with assms show "''companyName'' \<in> e_path ` set (snd (run_chains post_chains req))"
    by (simp add: text_error_iff validator_isLength_def toString_def)
next
  assume "length (validator_trim nm) = 26"
  with assms show "responses (events (post_companies (Inr db) req)) =
              [(400, JErrors (snd (run_chains post_chains req)))]"
    by (auto simp: post_companies_def post_validation getDbConnection_Inr validator_isLength_def
      toString_def)
qed

text \<open>
  Witness for C8 amended: 25 letters between spaces, which are inserted, and 26 letters.
\<close>

theorem post_name_length_boundary_witness:
  "length (validator_trim ''  ABCDEFGHIJKLMNOPQRSTUVWXY '') = 25 \<and>
   ''companyName'' \<notin> e_path ` set (snd (run_chains post_chains
      \<lparr>req_params = Map.empty,
       req_body = [''companyId'' \<mapsto> ''C001'', ''companyName'' \<mapsto> ''  ABCDEFGHIJKLMNOPQRSTUVWXY '',
                   ''companyCity'' \<mapsto> ''Oslo'']\<rparr>)) \<and>
   Query post_sql [Some ''C001'', Some ''ABCDEFGHIJKLMNOPQRSTUVWXY'', Some ''Oslo'']
     \<in> set (events (post_companies (Inr (\<lambda>sql vs. Inr \<lparr>affectedRows = 1, warningStatus = 0\<rparr>))
      \<lparr>req_params = Map.empty,
       req_body = [''companyId'' \<mapsto> ''C001'', ''companyName'' \<mapsto> ''  ABCDEFGHIJKLMNOPQRSTUVWXY '',
                   ''companyCity'' \<mapsto> ''Oslo'']\<rparr>)) \<and>
   length (validator_trim ''ABCDEFGHIJKLMNOPQRSTUVWXYZ'') = 26 \<and>
   ''companyName'' \<in> e_path ` set (snd (run_chains post_chains
      \<lparr>req_params = Map.empty,
       req_body = [''companyId'' \<mapsto> ''C001'', ''companyName'' \<mapsto> ''ABCDEFGHIJKLMNOPQRSTUVWXYZ'',
                   ''companyCity'' \<mapsto> ''Oslo'']\<rparr>)) \<and>
   status_of (post_companies (Inr (\<lambda>sql vs. Inr \<lparr>affectedRows = 1, warningStatus = 0\<rparr>))
      \<lparr>req_params = Map.empty,
       req_body = [''companyId'' \<mapsto> ''C001'', ''companyName'' \<mapsto> ''ABCDEFGHIJKLMNOPQRSTUVWXYZ'',
                   ''companyCity'' \<mapsto> ''Oslo'']\<rparr>) = Some 400"
proof -
  have l25: "length (validator_trim ''  ABCDEFGHIJKLMNOPQRSTUVWXY '') = 25"
    by (simp add: validator_trim_def is_space_def)
  have l26: "length (validator_trim ''ABCDEFGHIJKLMNOPQRSTUVWXYZ'') = 26"
    by (simp add: validator_trim_def is_space_def)
  have tr: "validator_trim ''  ABCDEFGHIJKLMNOPQRSTUVWXY '' = ''ABCDEFGHIJKLMNOPQRSTUVWXY''"
    "validator_trim ''Oslo'' = ''Oslo''"
    by (simp_all add: validator_trim_def is_space_def)
  have esc: "validator_escape ''ABCDEFGHIJKLMNOPQRSTUVWXY'' = ''ABCDEFGHIJKLMNOPQRSTUVWXY''"
    "validator_escape ''Oslo'' = ''Oslo''"
    by (simp_all add: validator_escape_def)
  show ?thesis
    using l25 l26
      post_name_length_boundary [of
        "\<lparr>req_params = Map.empty,
          req_body = [''companyId'' \<mapsto> ''C001'', ''companyName'' \<mapsto> ''  ABCDEFGHIJKLMNOPQRSTUVWXY '',
                      ''companyCity'' \<mapsto> ''Oslo'']\<rparr>"
        "''  ABCDEFGHIJKLMNOPQRSTUVWXY ''"
        "\<lambda>sql vs. Inr \<lparr>affectedRows = 1, warningStatus = 0\<rparr>"]
      post_name_length_boundary [of
        "\<lparr>req_params = Map.empty,
          req_body = [''companyId'' \<mapsto> ''C001'', ''companyName'' \<mapsto> ''ABCDEFGHIJKLMNOPQRSTUVWXYZ'',
                      ''companyCity'' \<mapsto> ''Oslo'']\<rparr>"
        "''ABCDEFGHIJKLMNOPQRSTUVWXYZ''"
        "\<lambda>sql vs. Inr \<lparr>affectedRows = 1, warningStatus = 0\<rparr>"]
    by (simp add: status_of_def validator_isLength_def toString_def tr esc)
qed

text \<open>
  C9, as stated (every request with several invalid fields gets the single 400 that
  lists them), fails when the pool rejects:
  when \<^verbatim>\<open>pool.getConnection()\<close> rejects,
  \<^verbatim>\<open>getDbConnection()\<close> throws outside the \<^verbatim>\<open>try\<close> and the handler ends without a
  response.
  A POST whose three fields all fail gets no response then.
\<close>

theorem post_all_fields_invalid_rejecting_pool:
  "map e_path (snd (run_chains (validators POST_companies)
      \<lparr>req_params = Map.empty,
       req_body = [''companyId'' \<mapsto> ''TOOLONG'', ''companyName'' \<mapsto> ''   '']\<rparr>)) =
     [''companyId'', ''companyName'', ''companyCity''] \<and>
   responses (events (handler POST_companies (Inl ''pool timeout'')
      \<lparr>req_params = Map.empty,
       req_body = [''companyId'' \<mapsto> ''TOOLONG'', ''companyName'' \<mapsto> ''   '']\<rparr>)) = [] \<and>
   rejected (handler POST_companies (Inl ''pool timeout'')
      \<lparr>req_params = Map.empty,
       req_body = [''companyId'' \<mapsto> ''TOOLONG'', ''companyName'' \<mapsto> ''   '']\<rparr>) =
     Some ''Internal server error''"
  using handler_no_connection [of POST_companies]
  by (simp add: post_error_paths validator_isLength_def toString_def
      validator_trim_def is_space_def)

text \<open>
  C9, amended: the chains of a route all run, and each failing field is reported. The
  paths of the errors are exactly the failing fields, in the order of the chains, whichever
  other fields fail; when there is an error and the handler holds a connection, the one
  response is a 400 whose body holds all of them.
\<close>

theorem validation_reports_every_failing_field:
  "map e_path (snd (run_chains post_chains req)) =
     (if validator_isLength (toString (req_body req ''companyId'')) 1 6 then []
      else [''companyId'']) @
     (if validator_isLength (validator_trim (toString (req_body req ''companyName''))) 1 25 then []
      else [''companyName'']) @
     (if validator_isLength (validator_trim (toString (req_body req ''companyCity''))) 1 25 then []
      else [''companyCity'']) \<and>
   map e_path (snd (run_chains put_chains req)) =
     (if validator_isLength (toString (req_params req ''companyId'')) 1 6 then []
      else [''companyId'']) @
     (if validator_isLength (validator_trim (toString (req_body req ''companyName''))) 1 25 then []
      else [''companyName'']) @
     (if validator_isLength (validator_trim (toString (req_body req ''companyCity''))) 1 25 then []
      else [''companyCity'']) \<and>
   map e_path (snd (run_chains patch_chains req)) =
     (if validator_isLength (toString (req_params req ''companyId'')) 1 6 then []
      else [''companyId'']) @
     (if req_body req ''companyName'' = None \<or>
         validator_isLength (validator_trim (toString (req_body req ''companyName''))) 1 25 then []
      else [''companyName'']) @
     (if req_body req ''companyCity'' = None \<or>
         validator_isLength (validator_trim (toString (req_body req ''companyCity''))) 1 25 then []
      else [''companyCity'']) \<and>
   (snd (run_chains (validators r) req) \<noteq> [] \<longrightarrow>
      responses (events (handler r (Inr db) req)) =
        [(400, JErrors (snd (run_chains (validators r) req)))])"
proof (intro conjI impI)
  show "map e_path (snd (run_chains post_chains req)) =
     (if validator_isLength (toString (req_body req ''companyId'')) 1 6 then []
      else [''companyId'']) @
     (if validator_isLength (validator_trim (toString (req_body req ''companyName''))) 1 25 then []
      else [''companyName'']) @
     (if validator_isLength (validator_trim (toString (req_body req ''companyCity''))) 1 25 then []
      else [''companyCity''])"
    by (simp add: post_validation)
  show "map e_path (snd (run_chains put_chains req)) =
     (if validator_isLength (toString (req_params req ''companyId'')) 1 6 then []
      else [''companyId'']) @
     (if validator_isLength (validator_trim (toString (req_body req ''companyName''))) 1 25 then []
      else [''companyName'']) @
     (if validator_isLength (validator_trim (toString (req_body req ''companyCity''))) 1 25 then []
      else [''companyCity''])"
    by (simp add: put_validation)
  show "map e_path (snd (run_chains patch_chains req)) =
     (if validator_isLength (toString (req_params req ''companyId'')) 1 6 then []
      else [''companyId'']) @
     (if req_body req ''companyName'' = None \<or>
         validator_isLength (validator_trim (toString (req_body req ''companyName''))) 1 25 then []
      else [''companyName'']) @
     (if req_body req ''companyCity'' = None \<or>
         validator_isLength (validator_trim (toString (req_body req ''companyCity''))) 1 25 then []
      else [''companyCity''])"
    by (simp add: patch_validation toString_def split: option.splits)
  assume "snd (run_chains (validators r) req) \<noteq> []"
  then show "responses (events (handler r (Inr db) req)) =
        [(400, JErrors (snd (run_chains (validators r) req)))]"
    by (simp add: handler_validation_failure)
qed

text \<open>
  Witness for C9 amended: a POST whose three fields all fail.
\<close>

theorem validation_reports_every_failing_field_witness:
  "map e_path (snd (run_chains post_chains
      \<lparr>req_params = Map.empty,
       req_body = [''companyId'' \<mapsto> ''TOOLONG'', ''companyName'' \<mapsto> ''   '']\<rparr>)) =
     [''companyId'', ''companyName'', ''companyCity''] \<and>
   map (\<lambda>(n, b). n) (responses (events (handler POST_companies
      (Inr (\<lambda>sql vs. Inr \<lparr>affectedRows = 1, warningStatus = 0\<rparr>))
      \<lparr>req_params = Map.empty,
       req_body = [''companyId'' \<mapsto> ''TOOLONG'', ''companyName'' \<mapsto> ''   '']\<rparr>))) = [400]"
proof -
  let ?req = "\<lparr>req_params = Map.empty,
               req_body = [''companyId'' \<mapsto> ''TOOLONG'', ''companyName'' \<mapsto> ''   '']\<rparr>"
  let ?db = "\<lambda>sql vs. Inr \<lparr>affectedRows = 1, warningStatus = 0\<rparr> :: js_error + query_result"
  note every = validation_reports_every_failing_field [of ?req POST_companies ?db]
  from every have paths: "map e_path (snd (run_chains post_chains ?req)) =
      [''companyId'', ''companyName'', ''companyCity'']"
    by (simp add: validator_isLength_def toString_def validator_trim_def is_space_def)
  then have "snd (run_chains (validators POST_companies) ?req) \<noteq> []"
    by auto
  with every have "responses (events (handler POST_companies (Inr ?db) ?req)) =
      [(400, JErrors (snd (run_chains (validators POST_companies) ?req)))]"
    by blast
  with paths show ?thesis
    by simp
qed

text \<open>
  C10, as stated, fails in its last part: \<^verbatim>\<open>companyName\<close> and \<^verbatim>\<open>companyCity\<close> are trimmed
  before the length check but escaped after it (the chain is
  \<^verbatim>\<open>.trim().isLength(...).escape()\<close>). A name of 23 characters whose escaped form has 37
  passes the check of at most 25, and the 37 characters are what the statement binds.
\<close>

theorem post_name_length_checked_before_escape:
  "snd (run_chains post_chains
      \<lparr>req_params = Map.empty,
       req_body = [''companyId'' \<mapsto> ''C001'', ''companyName'' \<mapsto> ''Johnson & Johnson <R&D>'',
                   ''companyCity'' \<mapsto> ''Paris'']\<rparr>) = [] \<and>
   length (validator_escape (validator_trim ''Johnson & Johnson <R&D>'')) = 37 \<and>
   events (post_companies (Inr (\<lambda>sql vs. Inr \<lparr>affectedRows = 1, warningStatus = 0\<rparr>))
      \<lparr>req_params = Map.empty,
       req_body = [''companyId'' \<mapsto> ''C001'', ''companyName'' \<mapsto> ''Johnson & Johnson <R&D>'',
                   ''companyCity'' \<mapsto> ''Paris'']\<rparr>) =
     [GetConnection,
      Query post_sql
        [Some ''C001'', Some ''Johnson &amp; Johnson &lt;R&amp;D&gt;'', Some ''Paris''],
      Respond 201 (JMessage ''Company created successfully''),
      Release]"
  by (simp add: post_companies_def post_validation getDbConnection_Inr validator_isLength_def
      toString_def validator_trim_def validator_escape_def is_space_def Let_def)

text \<open>
  C10, amended: on every mutating route \<^verbatim>\<open>companyId\<close> is rejected exactly when its raw
  length is outside 1 to 6. A request that passes validation (on PATCH: with a field
  supplied) has its statement sent once the handler holds a connection, and every statement
  a handler sends binds the id verbatim. \<^verbatim>\<open>companyName\<close> and \<^verbatim>\<open>companyCity\<close> are rejected
  exactly when their trimmed length is outside 1 to 25 (on PATCH: when supplied and so), and
  what the statement binds is the trimmed value, escaped after the check.
\<close>

theorem id_checked_raw_text_trimmed_then_escaped:
  "(let idb = req_body req ''companyId''; idp = req_params req ''companyId'';
        nm = req_body req ''companyName''; ct = req_body req ''companyCity'';
        raw_ok = (\<lambda>v. 1 \<le> length (toString v) \<and> length (toString v) \<le> 6);
        trimmed_ok = (\<lambda>v. 1 \<le> length (validator_trim (toString v)) \<and>
                          length (validator_trim (toString v)) \<le> 25);
        sanitized = (\<lambda>v. Some (validator_escape (validator_trim (toString v))));
        sanitized_if_supplied = map_option (\<lambda>s. validator_escape (validator_trim s))
    in
      (''companyId'' \<in> e_path ` set (snd (run_chains post_chains req)) \<longleftrightarrow> \<not> raw_ok idb) \<and>
      (''companyId'' \<in> e_path ` set (snd (run_chains patch_chains req)) \<longleftrightarrow> \<not> raw_ok idp) \<and>
      (''companyId'' \<in> e_path ` set (snd (run_chains put_chains req)) \<longleftrightarrow> \<not> raw_ok idp) \<and>
      (''companyId'' \<in> e_path ` set (snd (run_chains delete_chains req)) \<longleftrightarrow> \<not> raw_ok idp) \<and>
      (raw_ok idb \<and> trimmed_ok nm \<and> trimmed_ok ct \<longrightarrow>
         Query post_sql [idb, sanitized nm, sanitized ct]
           \<in> set (events (post_companies (Inr db) req))) \<and>
      (raw_ok idp \<and> (nm = None \<or> trimmed_ok nm) \<and> (ct = None \<or> trimmed_ok ct) \<and>
       (nm \<noteq> None \<or> ct \<noteq> None) \<longrightarrow>
         Query (patch_query (sanitized_if_supplied nm) (sanitized_if_supplied ct))
               (patch_values idp (sanitized_if_supplied nm) (sanitized_if_supplied ct))
           \<in> set (events (patch_company (Inr db) req)) \<and>
         last (patch_values idp (sanitized_if_supplied nm) (sanitized_if_supplied ct)) = idp) \<and>
      (raw_ok idp \<and> trimmed_ok nm \<and> trimmed_ok ct \<longrightarrow>
         Query put_sql [idp, sanitized nm, sanitized ct, sanitized nm, sanitized ct]
           \<in> set (events (put_company (Inr db) req))) \<and>
      (raw_ok idp \<longrightarrow>
         Query delete_sql [idp] \<in> set (events (delete_company (Inr db) req))) \<and>
      (\<forall>sql vs. Query sql vs \<in> set (events (post_companies p req)) \<longrightarrow>
         vs = [idb, sanitized nm, sanitized ct]) \<and>
      (\<forall>sql vs. Query sql vs \<in> set (events (patch_company p req)) \<longrightarrow>
         last vs = idp \<and> set (butlast vs) \<subseteq> {sanitized nm, sanitized ct}) \<and>
      (\<forall>sql vs. Query sql vs \<in> set (events (put_company p req)) \<longrightarrow>
         vs = [idp, sanitized nm, sanitized ct, sanitized nm, sanitized ct]) \<and>
      (\<forall>sql vs. Query sql vs \<in> set (events (delete_company p req)) \<longrightarrow> vs = [idp]) \<and>
      (''companyName'' \<in> e_path ` set (snd (run_chains post_chains req)) \<longleftrightarrow> \<not> trimmed_ok nm) \<and>
      (''companyCity'' \<in> e_path ` set (snd (run_chains post_chains req)) \<longleftrightarrow> \<not> trimmed_ok ct) \<and>
      (''companyName'' \<in> e_path ` set (snd (run_chains put_chains req)) \<longleftrightarrow> \<not> trimmed_ok nm) \<and>
      (''companyCity'' \<in> e_path ` set (snd (run_chains put_chains req)) \<longleftrightarrow> \<not> trimmed_ok ct) \<and>
      (''companyName'' \<in> e_path ` set (snd (run_chains patch_chains req)) \<longleftrightarrow>
         nm \<noteq> None \<and> \<not> trimmed_ok nm) \<and>
      (''companyCity'' \<in> e_path ` set (snd (run_chains patch_chains req)) \<longleftrightarrow>
         ct \<noteq> None \<and> \<not> trimmed_ok ct))"
proof -
  have patch: "last vs = req_params req ''companyId'' \<and>
      set (butlast vs) \<subseteq>
        {Some (validator_escape (validator_trim (toString (req_body req ''companyName'')))),
         Some (validator_escape (validator_trim (toString (req_body req ''companyCity''))))}"
    if "Query sql vs \<in> set (events (patch_company p req))" for sql vs
  proof -
    from patch_queries [OF that] obtain a b where
      "a = map_option (\<lambda>s. validator_escape (validator_trim s)) (req_body req ''companyName'')"
      "b = map_option (\<lambda>s. validator_escape (validator_trim s)) (req_body req ''companyCity'')"
      "vs = patch_values (req_params req ''companyId'') a b"
      by blast
    then show ?thesis
      using patch_values_shape [of a "req_body req ''companyName''" b "req_body req ''companyCity''"
          "req_params req ''companyId''"]
      by simp
  qed
  have last_patch: "last (patch_values i a b) = i" for i a b
    by (simp add: patch_values_def)
  show ?thesis
    unfolding Let_def
    apply (intro conjI)
    subgoal by (simp add: id_error_iff validator_isLength_def)
    subgoal by (simp add: id_error_iff validator_isLength_def)
    subgoal by (simp add: id_error_iff validator_isLength_def)
    subgoal by (simp add: id_error_iff validator_isLength_def)
    subgoal using post_sends [of req db] unfolding validator_isLength_def by blast
    subgoal using patch_sends [of req db] last_patch unfolding validator_isLength_def by blast
    subgoal using put_sends [of req db] unfolding validator_isLength_def by blast
    subgoal using delete_sends [of req db] unfolding validator_isLength_def by blast
    subgoal using post_queries [of _ _ p req] by blast
    subgoal using patch by blast
    subgoal using put_queries [of _ _ p req] by blast
    subgoal using delete_queries [of _ _ p req] by blast
    subgoal by (simp add: text_error_iff validator_isLength_def)
    subgoal by (simp add: text_error_iff validator_isLength_def)
    subgoal by (simp add: text_error_iff validator_isLength_def)
    subgoal by (simp add: text_error_iff validator_isLength_def)
    subgoal by (simp add: text_error_iff validator_isLength_def)
    subgoal by (simp add: text_error_iff validator_isLength_def)
    done
qed

text \<open>
  Witness for C10 amended: an id of three spaces passes on all four routes and is bound as
  it is, while the name \<^verbatim>\<open>" Acme "\<close> is bound trimmed and a name of three spaces is
  rejected.
\<close>

theorem id_checked_raw_text_trimmed_then_escaped_witness:
  "''companyId'' \<notin> e_path ` set (snd (run_chains post_chains
      \<lparr>req_params = Map.empty,
       req_body = [''companyId'' \<mapsto> ''   '', ''companyName'' \<mapsto> '' Acme '',
                   ''companyCity'' \<mapsto> ''Oslo'']\<rparr>)) \<and>
   Query post_sql [Some ''   '', Some ''Acme'', Some ''Oslo'']
     \<in> set (events (post_companies (Inr (\<lambda>sql vs. Inr \<lparr>affectedRows = 1, warningStatus = 0\<rparr>))
          \<lparr>req_params = Map.empty,
           req_body = [''companyId'' \<mapsto> ''   '', ''companyName'' \<mapsto> '' Acme '',
                       ''companyCity'' \<mapsto> ''Oslo'']\<rparr>)) \<and>
   Query ''UPDATE company SET COMPANY_NAME = ? WHERE COMPANY_ID = ?'' [Some ''Acme'', Some ''   '']
     \<in> set (events (patch_company (Inr (\<lambda>sql vs. Inr \<lparr>affectedRows = 1, warningStatus = 0\<rparr>))
          \<lparr>req_params = [''companyId'' \<mapsto> ''   ''],
           req_body = [''companyName'' \<mapsto> '' Acme '']\<rparr>)) \<and>
   Query put_sql [Some ''   '', Some ''Acme'', Some ''Oslo'', Some ''Acme'', Some ''Oslo'']
     \<in> set (events (put_company (Inr (\<lambda>sql vs. Inr \<lparr>affectedRows = 1, warningStatus = 0\<rparr>))
          \<lparr>req_params = [''companyId'' \<mapsto> ''   ''],
           req_body = [''companyName'' \<mapsto> '' Acme '', ''companyCity'' \<mapsto> ''Oslo'']\<rparr>)) \<and>
   Query delete_sql [Some ''   '']
     \<in> set (events (delete_company (Inr (\<lambda>sql vs. Inr \<lparr>affectedRows = 1, warningStatus = 0\<rparr>))
          \<lparr>req_params = [''companyId'' \<mapsto> ''   ''], req_body = Map.empty\<rparr>)) \<and>
   ''companyName'' \<in> e_path ` set (snd (run_chains put_chains
      \<lparr>req_params = [''companyId'' \<mapsto> ''   ''],
       req_body = [''companyName'' \<mapsto> ''   '', ''companyCity'' \<mapsto> ''Oslo'']\<rparr>))"
proof -
  let ?p = "Inr (\<lambda>sql vs. Inr \<lparr>affectedRows = 1, warningStatus = 0\<rparr>) :: pool"
  let ?db = "\<lambda>sql vs. Inr \<lparr>affectedRows = 1, warningStatus = 0\<rparr> :: js_error + query_result"
  let ?post = "\<lparr>req_params = Map.empty,
                req_body = [''companyId'' \<mapsto> ''   '', ''companyName'' \<mapsto> '' Acme '',
                            ''companyCity'' \<mapsto> ''Oslo'']\<rparr>"
  let ?patch = "\<lparr>req_params = [''companyId'' \<mapsto> ''   ''],
                 req_body = [''companyName'' \<mapsto> '' Acme '']\<rparr>"
  let ?put = "\<lparr>req_params = [''companyId'' \<mapsto> ''   ''],
               req_body = [''companyName'' \<mapsto> '' Acme '', ''companyCity'' \<mapsto> ''Oslo'']\<rparr>"
  let ?delete = "\<lparr>req_params = [''companyId'' \<mapsto> ''   ''], req_body = Map.empty\<rparr>"
  let ?blank = "\<lparr>req_params = [''companyId'' \<mapsto> ''   ''],
                 req_body = [''companyName'' \<mapsto> ''   '', ''companyCity'' \<mapsto> ''Oslo'']\<rparr>"
  have tr: "validator_trim '' Acme '' = ''Acme''" "validator_trim ''Oslo'' = ''Oslo''"
    "validator_trim ''   '' = []"
    by (simp_all add: validator_trim_def is_space_def)
  have esc: "validator_escape ''Acme'' = ''Acme''" "validator_escape ''Oslo'' = ''Oslo''"
    by (simp_all add: validator_escape_def)
  have post: "''companyId'' \<notin> e_path ` set (snd (run_chains post_chains ?post)) \<and>
      Query post_sql [Some ''   '', Some ''Acme'', Some ''Oslo'']
        \<in> set (events (post_companies ?p ?post))"
    using id_checked_raw_text_trimmed_then_escaped [of ?post ?db ?p]
    by (simp add: Let_def toString_def tr esc)
  have patch: "Query ''UPDATE company SET COMPANY_NAME = ? WHERE COMPANY_ID = ?''
        [Some ''Acme'', Some ''   ''] \<in> set (events (patch_company ?p ?patch))"
    using id_checked_raw_text_trimmed_then_escaped [of ?patch ?db ?p]
    by (simp add: Let_def toString_def tr esc patch_query_def patch_values_def
        patch_updateFields_def truthy_def)
  have put: "Query put_sql [Some ''   '', Some ''Acme'', Some ''Oslo'', Some ''Acme'', Some ''Oslo'']
        \<in> set (events (put_company ?p ?put))"
    using id_checked_raw_text_trimmed_then_escaped [of ?put ?db ?p]
    by (simp add: Let_def toString_def tr esc)
  have delete: "Query delete_sql [Some ''   ''] \<in> set (events (delete_company ?p ?delete))"
    using id_checked_raw_text_trimmed_then_escaped [of ?delete ?db ?p]
    by (simp add: Let_def toString_def)
  have name: "''companyName'' \<in> e_path ` set (snd (run_chains put_chains ?blank))"
    using id_checked_raw_text_trimmed_then_escaped [of ?blank ?db ?p]
    by (simp add: Let_def toString_def tr)
  from post patch put delete name show ?thesis
    by blast
qed

end
